theory Spec2Isabelle
  imports Main
begin

section \<open>Python values\<close>

text \<open>
  A Python \<open>str\<close> is a sequence of Unicode code points, and \<open>len\<close>, slicing and
  \<open>split\<close> count code points. A string is therefore a list of code points (naturals);
  \<open>str\<close> turns an ASCII literal into one.
\<close>

type_synonym pystr = "nat list"

definition str :: "string \<Rightarrow> pystr" where
  "str s = map of_char s"

text \<open>The characters \<open>str.isspace\<close>, \<open>str.split()\<close> and \<open>str.strip()\<close> treat as whitespace.\<close>

definition isspace :: "nat \<Rightarrow> bool" where
  "isspace c \<longleftrightarrow>
     (9 \<le> c \<and> c \<le> 13) \<or> (28 \<le> c \<and> c \<le> 32) \<or> c = 133 \<or> c = 160 \<or> c = 5760 \<or>
     (8192 \<le> c \<and> c \<le> 8202) \<or> c = 8232 \<or> c = 8233 \<or> c = 8239 \<or> c = 8287 \<or> c = 12288"

text \<open>\<open>s.split()\<close>: the maximal runs of non-whitespace characters, in order.
  \<open>split_from w s\<close> scans \<open>s\<close> with the word \<open>w\<close> read so far.\<close>

fun split_from :: "pystr \<Rightarrow> pystr \<Rightarrow> pystr list" where
  "split_from w [] = (if w = [] then [] else [w])"
| "split_from w (c # cs) =
     (if isspace c then (if w = [] then split_from [] cs else w # split_from [] cs)
      else split_from (w @ [c]) cs)"

definition py_split :: "pystr \<Rightarrow> pystr list" where
  "py_split s = split_from [] s"

text \<open>\<open>s.strip()\<close>: leading and trailing whitespace removed.\<close>

definition py_strip :: "pystr \<Rightarrow> pystr" where
  "py_strip s = rev (dropWhile isspace (rev (dropWhile isspace s)))"

text \<open>
  A decoded JSON value, as \<open>json.loads\<close> and \<open>request.get_json\<close> return it: \<open>None\<close>,
  \<open>bool\<close>, a number, \<open>str\<close>, \<open>list\<close> or \<open>dict\<close>. A dict is an association list read
  by its first binding of a key. A number carries an integer; a fractional number takes
  the same branches as an integer in every function below (it is no \<open>str\<close>, \<open>list\<close>
  or \<open>dict\<close>, and it is falsy exactly when it is zero).
\<close>

datatype json =
    JNull
  | JBool bool
  | JNum int
  | JStr pystr
  | JArr "json list"
  | JObj "(pystr \<times> json) list"

type_synonym pydict = "(pystr \<times> json) list"

text \<open>Python's truth value of an object (\<open>if x:\<close>, \<open>not x\<close>, \<open>x or y\<close>).\<close>

fun truthy :: "json \<Rightarrow> bool" where
  "truthy JNull = False"
| "truthy (JBool b) = b"
| "truthy (JNum n) = (n \<noteq> 0)"
| "truthy (JStr s) = (s \<noteq> [])"
| "truthy (JArr xs) = (xs \<noteq> [])"
| "truthy (JObj d) = (d \<noteq> [])"

text \<open>\<open>d.get(k, dflt)\<close>; \<open>d.get(k)\<close> is \<open>dict_get d k JNull\<close>.\<close>

definition dict_get :: "pydict \<Rightarrow> pystr \<Rightarrow> json \<Rightarrow> json" where
  "dict_get d k dflt = (case map_of d k of None \<Rightarrow> dflt | Some v \<Rightarrow> v)"

text \<open>The exceptions the two programs can raise.\<close>

datatype py_exn =
    AttributeError
  | TypeError
  | TimeoutError
  | UnicodeDecodeError
  | RuntimeError
  | BadRequest
  | RecursionError
  | ValueError

text \<open>\<open>for x in v\<close>: a list gives its items, a str its characters, a dict its keys;
  nothing else can be iterated.\<close>

fun py_iter :: "json \<Rightarrow> py_exn + json list" where
  "py_iter (JArr xs) = Inr xs"
| "py_iter (JStr s) = Inr (map (\<lambda>c. JStr [c]) s)"
| "py_iter (JObj d) = Inr (map (\<lambda>kv. JStr (fst kv)) d)"
| "py_iter JNull = Inl TypeError"
| "py_iter (JBool b) = Inl TypeError"
| "py_iter (JNum n) = Inl TypeError"

text \<open>\<open>sep.join(parts)\<close> raises \<open>TypeError\<close> unless every part is a str.\<close>

fun str_items :: "json list \<Rightarrow> pystr list option" where
  "str_items [] = Some []"
| "str_items (JStr s # xs) = (case str_items xs of None \<Rightarrow> None | Some ss \<Rightarrow> Some (s # ss))"
| "str_items (_ # xs) = None"

fun join_strs :: "pystr \<Rightarrow> pystr list \<Rightarrow> pystr" where
  "join_strs sep [] = []"
| "join_strs sep [s] = s"
| "join_strs sep (s # t # ss) = s @ sep @ join_strs sep (t # ss)"

definition py_join :: "pystr \<Rightarrow> json list \<Rightarrow> py_exn + pystr" where
  "py_join sep parts =
     (case str_items parts of None \<Rightarrow> Inl TypeError | Some ss \<Rightarrow> Inr (join_strs sep ss))"


section \<open>The gateway (agent\_server.py)\<close>

text \<open>The outcome of \<open>subprocess.run(cmd, capture_output=True, text=True, ...)\<close>: the
  process ends with a return code, its stdout and its stderr, or the call raises.\<close>

datatype proc_outcome =
    Completed int pystr pystr
  | TimeoutExpired
  | OtherException pystr

text \<open>
  What the gateway reads from its surroundings: the two environment variables, the
  directory of the script, and the library calls whose results the program only passes on
  (\<open>str()\<close> of a value that is not a str, \<open>str(e)\<close> of an exception, \<open>json.dumps\<close>,
  \<open>subprocess.run\<close> with its command, timeout and working directory,
  \<open>uuid.uuid4().hex\<close>, \<open>int(time.time())\<close>).
\<close>

record gateway =
  API_KEY :: pystr
  FORCE_AGENT :: pystr
  SCRIPT_DIR :: pystr
  py_str :: "json \<Rightarrow> pystr"
  exn_str :: "py_exn \<Rightarrow> pystr"
  json_dumps :: "json \<Rightarrow> pystr"
  subprocess_run :: "json list \<Rightarrow> int \<Rightarrow> json \<Rightarrow> proc_outcome"
  uuid4_hex :: pystr
  time_now :: int

text \<open>A request as the handler sees it: the \<open>Authorization\<close> header, if any, and what
  \<open>request.get_json()\<close> gives (the decoded body, or an exception).\<close>

record request =
  authorization :: "pystr option"
  get_json :: "py_exn + json"

text \<open>An event of the stream: \<open>SseData d\<close> is the text \<open>data: \<close> followed by
  \<open>json.dumps(d)\<close> and a blank line, \<open>SseDone\<close> is the text \<open>data: [DONE]\<close> and a
  blank line.\<close>

datatype sse_event = SseData json | SseDone

text \<open>What the handler returns: \<open>jsonify(body)\<close> with a status, or a streamed
  \<open>text/event-stream\<close> response (status 200).\<close>

datatype response = JsonResponse nat json | EventStream "sse_event list"

fun status :: "response \<Rightarrow> nat" where
  "status (JsonResponse code body) = code"
| "status (EventStream events) = 200"

definition check_auth :: "gateway \<Rightarrow> request \<Rightarrow> bool" where
  "check_auth g req =
     (if API_KEY g = [] then True
      else (let auth = (case authorization req of None \<Rightarrow> [] | Some a \<Rightarrow> a)
            in if take 7 auth = str ''Bearer '' then drop 7 auth = API_KEY g else False))"

definition AGENT_CALL :: "gateway \<Rightarrow> pystr" where
  "AGENT_CALL g =
     (if SCRIPT_DIR g = [] \<or> last (SCRIPT_DIR g) = of_char CHR ''/''
      then SCRIPT_DIR g @ str ''agent-call''
      else SCRIPT_DIR g @ str ''/agent-call'')"

text \<open>The routing table: model name to agent and optional sub-model.\<close>

definition MODEL_MAP :: "(pystr \<times> pystr \<times> pystr option) list" where
  "MODEL_MAP =
     [(str ''claude-code'', str ''claude'', None),
      (str ''claude-code-opus'', str ''claude'', Some (str ''opus'')),
      (str ''claude-code-sonnet'', str ''claude'', Some (str ''sonnet'')),
      (str ''amazon-q'', str ''amazonq'', None),
      (str ''amazonq'', str ''amazonq'', None),
      (str ''codex'', str ''codex'', None),
      (str ''aider'', str ''aider'', None),
      (str ''aider-gpt4'', str ''aider'', Some (str ''gpt-4'')),
      (str ''aider-claude'', str ''aider'', Some (str ''claude-3-opus-20240229''))]"

text \<open>\<open>MODEL_MAP.get(model_name)\<close>: a list or a dict is unhashable and raises
  \<open>TypeError\<close>; any other value that is not a key gives \<open>None\<close>.\<close>

fun MODEL_MAP_get :: "json \<Rightarrow> py_exn + (pystr \<times> pystr option) option" where
  "MODEL_MAP_get (JStr s) = Inr (map_of MODEL_MAP s)"
| "MODEL_MAP_get (JArr xs) = Inl TypeError"
| "MODEL_MAP_get (JObj d) = Inl TypeError"
| "MODEL_MAP_get JNull = Inr None"
| "MODEL_MAP_get (JBool b) = Inr None"
| "MODEL_MAP_get (JNum n) = Inr None"

text \<open>The loop of \<open>extract_content\<close> over an array: the list \<open>texts\<close>.\<close>

fun content_texts :: "json list \<Rightarrow> json list" where
  "content_texts [] = []"
| "content_texts (JObj d # items) =
     (if dict_get d (str ''type'') JNull = JStr (str ''text'')
      then dict_get d (str ''text'') (JStr []) # content_texts items
      else content_texts items)"
| "content_texts (JStr s # items) = JStr s # content_texts items"
| "content_texts (_ # items) = content_texts items"

fun extract_content :: "gateway \<Rightarrow> json \<Rightarrow> py_exn + pystr" where
  "extract_content g (JStr s) = Inr s"
| "extract_content g (JArr items) = py_join [10] (content_texts items)"
| "extract_content g content = Inr (if truthy content then py_str g content else [])"

text \<open>The loop of \<open>messages_to_prompt\<close>: the list \<open>parts\<close>. The content is extracted
  before the role is looked at, so a message of an unknown role can still raise.\<close>

fun prompt_parts :: "gateway \<Rightarrow> json list \<Rightarrow> py_exn + pystr list" where
  "prompt_parts g [] = Inr []"
| "prompt_parts g (JObj d # msgs) =
     (let role = dict_get d (str ''role'') (JStr (str ''user''))
      in case extract_content g (dict_get d (str ''content'') (JStr [])) of
           Inl e \<Rightarrow> Inl e
         | Inr content \<Rightarrow>
             (case prompt_parts g msgs of
                Inl e \<Rightarrow> Inl e
              | Inr rest \<Rightarrow>
                  Inr (if role = JStr (str ''system'') then (str ''[System]: '' @ content) # rest
                       else if role = JStr (str ''user'') then content # rest
                       else if role = JStr (str ''assistant'')
                         then (str ''[Previous response]: '' @ content) # rest
                       else rest)))"
| "prompt_parts g (_ # msgs) = Inl AttributeError"

definition messages_to_prompt :: "gateway \<Rightarrow> json \<Rightarrow> py_exn + pystr" where
  "messages_to_prompt g messages =
     (case py_iter messages of
        Inl e \<Rightarrow> Inl e
      | Inr msgs \<Rightarrow>
          (case prompt_parts g msgs of
             Inl e \<Rightarrow> Inl e
           | Inr parts \<Rightarrow> Inr (join_strs [10, 10] parts)))"

fun extract_json_schema :: "gateway \<Rightarrow> json \<Rightarrow> py_exn + pystr option" where
  "extract_json_schema g (JObj d) =
     (if d = [] then Inr None
      else if dict_get d (str ''type'') JNull \<noteq> JStr (str ''json_schema'') then Inr None
      else (case dict_get d (str ''json_schema'') (JObj []) of
              JObj js \<Rightarrow>
                (let schema = dict_get js (str ''schema'') JNull
                 in if truthy schema then Inr (Some (json_dumps g schema)) else Inr None)
            | _ \<Rightarrow> Inl AttributeError))"
| "extract_json_schema g response_format =
     (if truthy response_format then Inl AttributeError else Inr None)"

text \<open>The argument list \<open>cmd\<close> that \<open>call_agent\<close> builds. The context is passed on
  as it came in the request, whatever its type.\<close>

definition agent_command ::
  "gateway \<Rightarrow> pystr \<Rightarrow> pystr \<Rightarrow> pystr option \<Rightarrow> json \<Rightarrow> pystr option \<Rightarrow> json list" where
  "agent_command g prompt agent model context json_schema =
     [JStr (AGENT_CALL g), JStr (str ''-a''), JStr agent, JStr (str ''-q'')]
     @ (case model of
          None \<Rightarrow> []
        | Some m \<Rightarrow> if m \<noteq> [] then [JStr (str ''-m''), JStr m] else [])
     @ (if truthy context then [JStr (str ''-c''), context] else [])
     @ (case json_schema of
          None \<Rightarrow> []
        | Some j \<Rightarrow> if j \<noteq> [] then [JStr (str ''-j''), JStr j] else [])
     @ [JStr prompt]"

text \<open>\<open>call_agent\<close> with the default timeout of 300. It catches every exception of the
  invocation, so it always returns a str.\<close>

definition call_agent ::
  "gateway \<Rightarrow> pystr \<Rightarrow> pystr \<Rightarrow> pystr option \<Rightarrow> json \<Rightarrow> pystr option \<Rightarrow> pystr" where
  "call_agent g prompt agent model context json_schema =
     (case subprocess_run g (agent_command g prompt agent model context json_schema) 300
             (if truthy context then context else JStr (SCRIPT_DIR g)) of
        Completed returncode out err \<Rightarrow>
          (if returncode \<noteq> 0
           then str ''Error: '' @ (if py_strip err \<noteq> [] then py_strip err
                                   else str ''Agent execution failed'')
           else py_strip out)
      | TimeoutExpired \<Rightarrow> str ''Error: Agent execution timed out''
      | OtherException msg \<Rightarrow> str ''Error: '' @ msg)"

definition generate_completion_id :: "gateway \<Rightarrow> pystr" where
  "generate_completion_id g = str ''chatcmpl-'' @ take 12 (uuid4_hex g)"

definition create_response ::
  "gateway \<Rightarrow> pystr \<Rightarrow> json \<Rightarrow> pystr option \<Rightarrow> int \<Rightarrow> int \<Rightarrow> json" where
  "create_response g content model completion_id prompt_tokens completion_tokens =
     (let completion_id' =
            (case completion_id of None \<Rightarrow> generate_completion_id g | Some c \<Rightarrow> c);
          prompt_tokens' =
            (if prompt_tokens = 0 then int (length (py_split content)) div 2 else prompt_tokens);
          completion_tokens' =
            (if completion_tokens = 0 then int (length (py_split content)) else completion_tokens)
      in JObj
           [(str ''id'', JStr completion_id'),
            (str ''object'', JStr (str ''chat.completion'')),
            (str ''created'', JNum (time_now g)),
            (str ''model'', model),
            (str ''choices'',
               JArr [JObj [(str ''index'', JNum 0),
                           (str ''message'',
                              JObj [(str ''role'', JStr (str ''assistant'')),
                                    (str ''content'', JStr content)]),
                           (str ''finish_reason'', JStr (str ''stop''))]]),
            (str ''usage'',
               JObj [(str ''prompt_tokens'', JNum prompt_tokens'),
                     (str ''completion_tokens'', JNum completion_tokens'),
                     (str ''total_tokens'', JNum (prompt_tokens' + completion_tokens'))])])"

text \<open>The slices \<open>content[i:i + 20] for i in range(0, len(content), 20)\<close>.\<close>

definition chunk_size :: nat where
  "chunk_size = 20"

definition content_chunks :: "pystr \<Rightarrow> pystr list" where
  "content_chunks content =
     map (\<lambda>k. take chunk_size (drop (k * chunk_size) content))
       [0 ..< (length content + (chunk_size - 1)) div chunk_size]"

definition chunk_data :: "pystr \<Rightarrow> int \<Rightarrow> json \<Rightarrow> nat \<Rightarrow> nat \<Rightarrow> pystr \<Rightarrow> json" where
  "chunk_data completion_id created model n i chunk =
     JObj [(str ''id'', JStr completion_id),
           (str ''object'', JStr (str ''chat.completion.chunk'')),
           (str ''created'', JNum created),
           (str ''model'', model),
           (str ''choices'',
              JArr [JObj [(str ''index'', JNum 0),
                          (str ''delta'',
                             if chunk \<noteq> [] then JObj [(str ''content'', JStr chunk)] else JObj []),
                          (str ''finish_reason'',
                             if int i < int n - 1 then JNull else JStr (str ''stop''))]])]"

text \<open>The generator \<open>stream_response\<close>, as the list of the events it yields.\<close>

definition stream_response :: "gateway \<Rightarrow> pystr \<Rightarrow> json \<Rightarrow> sse_event list" where
  "stream_response g content model =
     (let completion_id = generate_completion_id g;
          created = time_now g;
          chunks = content_chunks content;
          chunks' = (if chunks = [] then [[]] else chunks)
      in map (\<lambda>(i, chunk). SseData (chunk_data completion_id created model (length chunks') i chunk))
           (enumerate 0 chunks')
         @ [SseDone])"

definition error_body :: "pystr \<Rightarrow> pystr option \<Rightarrow> json" where
  "error_body message type =
     JObj [(str ''error'',
            JObj ((str ''message'', JStr message)
                  # (case type of None \<Rightarrow> [] | Some t \<Rightarrow> [(str ''type'', JStr t)])))]"

text \<open>\<open>f"Unknown model: {model_name}"\<close>: a str is formatted as itself.\<close>

definition format_value :: "gateway \<Rightarrow> json \<Rightarrow> pystr" where
  "format_value g v = (case v of JStr s \<Rightarrow> s | _ \<Rightarrow> py_str g v)"

text \<open>The request parameters the handler extracts from the body, with their defaults.\<close>

definition request_model :: "pydict \<Rightarrow> json" where
  "request_model d = dict_get d (str ''model'') (JStr (str ''claude-code''))"

definition request_messages :: "pydict \<Rightarrow> json" where
  "request_messages d = dict_get d (str ''messages'') (JArr [])"

definition request_stream :: "pydict \<Rightarrow> json" where
  "request_stream d = dict_get d (str ''stream'') (JBool False)"

definition request_response_format :: "pydict \<Rightarrow> json" where
  "request_response_format d = dict_get d (str ''response_format'') JNull"

definition request_context :: "pydict \<Rightarrow> json" where
  "request_context d = dict_get d (str ''context'') JNull"

text \<open>The end of the handler: the stream or the completion object for the text the agent
  gave.\<close>

definition respond :: "gateway \<Rightarrow> json \<Rightarrow> json \<Rightarrow> pystr \<Rightarrow> response" where
  "respond g stream model_name response_content =
     (if truthy stream then EventStream (stream_response g response_content model_name)
      else JsonResponse 200 (create_response g response_content model_name None 0 0))"

text \<open>The handler from the flattening of the messages to its return, for the agent and
  the sub-model the routing gave: \<open>Inl\<close> is an exception that reaches the \<open>except\<close>
  clause.\<close>

definition invoke_and_respond ::
  "gateway \<Rightarrow> pydict \<Rightarrow> pystr \<Rightarrow> pystr option \<Rightarrow> py_exn + response" where
  "invoke_and_respond g d agent model =
     (case messages_to_prompt g (request_messages d) of
        Inl e \<Rightarrow> Inl e
      | Inr prompt \<Rightarrow>
          (case extract_json_schema g (request_response_format d) of
             Inl e \<Rightarrow> Inl e
           | Inr json_schema \<Rightarrow>
               Inr (respond g (request_stream d) (request_model d)
                      (call_agent g prompt agent model (request_context d) json_schema))))"

text \<open>The body of the \<open>try\<close> block of \<open>chat_completions\<close>. Reading a parameter of a
  body that is no dict raises \<open>AttributeError\<close>.\<close>

definition chat_completions_try :: "gateway \<Rightarrow> request \<Rightarrow> py_exn + response" where
  "chat_completions_try g req =
     (case get_json req of
        Inl e \<Rightarrow> Inl e
      | Inr data \<Rightarrow>
          if \<not> truthy data
          then Inr (JsonResponse 400 (error_body (str ''Request body required'') None))
          else (case data of
             JObj d \<Rightarrow>
               (if \<not> truthy (request_messages d)
                then Inr (JsonResponse 400 (error_body (str ''messages field required'') None))
                else (case MODEL_MAP_get (request_model d) of
                   Inl e \<Rightarrow> Inl e
                 | Inr None \<Rightarrow>
                     Inr (JsonResponse 400
                            (error_body (str ''Unknown model: '' @ format_value g (request_model d))
                               (Some (str ''invalid_request_error''))))
                 | Inr (Some model_config) \<Rightarrow>
                     (if FORCE_AGENT g \<noteq> [] then invoke_and_respond g d (FORCE_AGENT g) None
                      else invoke_and_respond g d (fst model_config) (snd model_config))))
           | _ \<Rightarrow> Inl AttributeError))"

text \<open>The \<open>except\<close> clause: status 500 with the message of the exception.\<close>

definition internal_error :: "gateway \<Rightarrow> py_exn \<Rightarrow> response" where
  "internal_error g e =
     JsonResponse 500 (error_body (exn_str g e) (Some (str ''internal_error'')))"

definition chat_completions :: "gateway \<Rightarrow> request \<Rightarrow> response" where
  "chat_completions g req =
     (if \<not> check_auth g req
      then JsonResponse 401 (error_body (str ''Invalid API key'') (Some (str ''auth_error'')))
      else (case chat_completions_try g req of
              Inr r \<Rightarrow> r
            | Inl e \<Rightarrow> internal_error g e))"


section \<open>The daemon client (agent-client.py)\<close>

text \<open>
  One round of the loop of \<open>read_responses\<close>, as the surroundings decide it:
  \<open>select\<close> reports nothing within the timeout (\<open>NotReady\<close>), or the read gives a
  chunk that decodes to a text (\<open>Data\<close>, possibly empty), or one that is not valid
  UTF-8 (\<open>Undecodable\<close>). The rounds to come are a list; when it is used up the
  generator is still waiting in \<open>select\<close>.
\<close>

datatype read_event = NotReady | Data pystr | Undecodable

text \<open>How a run of the generator ends.\<close>

datatype ending = Returned | Raised py_exn | Waiting

text \<open>
  What \<open>json.loads(line)\<close> does: it returns a value, or raises \<open>JSONDecodeError\<close>
  (the one exception the loop catches), or raises another exception, which nothing in
  the generator catches (\<open>RecursionError\<close> on a deeply nested line, \<open>ValueError\<close> on
  an integer literal beyond the digit limit).
\<close>

datatype loads_outcome = Decoded json | JSONDecodeError | LoadsRaised py_exn

text \<open>
  The inner loop \<open>while "\n" in buffer\<close>: the envelopes it yields, and either the way
  the generator ends there or the buffer left for the next read. \<open>loads\<close> is
  \<open>json.loads\<close>. After each yield the generator calls \<open>msg.get\<close>, which raises
  unless the value is a dict.
\<close>

function scan_buffer ::
  "(pystr \<Rightarrow> loads_outcome) \<Rightarrow> pystr \<Rightarrow> json list \<times> (ending + pystr)" where
  "scan_buffer loads buffer =
     (if 10 \<notin> set buffer then ([], Inr buffer)
      else (let line = takeWhile (\<lambda>c. c \<noteq> 10) buffer;
                buffer' = tl (dropWhile (\<lambda>c. c \<noteq> 10) buffer)
            in if py_strip line = [] then scan_buffer loads buffer'
               else (case loads line of
                       JSONDecodeError \<Rightarrow> scan_buffer loads buffer'
                     | LoadsRaised e \<Rightarrow> ([], Inl (Raised e))
                     | Decoded msg \<Rightarrow>
                         (case msg of
                            JObj d \<Rightarrow>
                              (let msg_type = dict_get d (str ''type'') (JStr [])
                               in if msg_type = JStr (str ''result'') then ([msg], Inl Returned)
                                  else if msg_type = JStr (str ''error'') then ([msg], Inl Returned)
                                  else (case scan_buffer loads buffer' of
                                          (ys, r) \<Rightarrow> (msg # ys, r)))
                          | _ \<Rightarrow> ([msg], Inl (Raised AttributeError))))))"
  by pat_completeness auto
termination
proof -
  have shorter: "length (dropWhile (\<lambda>c. c \<noteq> 10) b) - Suc 0 < length b"
    if "10 \<in> set b" for b :: pystr
  proof -
    from that have "dropWhile (\<lambda>c. c \<noteq> 10) b \<noteq> []" by simp
    then have "length (dropWhile (\<lambda>c. c \<noteq> 10) b) - Suc 0 < length (dropWhile (\<lambda>c. c \<noteq> 10) b)"
      by simp
    also have "\<dots> \<le> length b" by (rule length_dropWhile_le)
    finally show ?thesis .
  qed
  show ?thesis
    by (relation "measure (\<lambda>(loads, buffer). length buffer)") (auto simp: shorter)
qed

declare scan_buffer.simps [simp del]

text \<open>The outer loop \<open>while True\<close> over the rounds to come: the envelopes yielded, the
  way the generator ends, and the rounds it has not used.\<close>

fun read_loop ::
  "(pystr \<Rightarrow> loads_outcome) \<Rightarrow> pystr \<Rightarrow> read_event list
     \<Rightarrow> json list \<times> ending \<times> read_event list" where
  "read_loop loads buffer [] = ([], Waiting, [])"
| "read_loop loads buffer (NotReady # events) = ([], Raised TimeoutError, events)"
| "read_loop loads buffer (Undecodable # events) = ([], Raised UnicodeDecodeError, events)"
| "read_loop loads buffer (Data chunk # events) =
     (if chunk = [] then read_loop loads buffer events
      else (case scan_buffer loads (buffer @ chunk) of
              (ys, Inl e) \<Rightarrow> (ys, e, events)
            | (ys, Inr buffer') \<Rightarrow>
                (case read_loop loads buffer' events of
                   (zs, e, rest) \<Rightarrow> (ys @ zs, e, rest))))"

text \<open>\<open>read_responses\<close> starts with an empty buffer. Its timeout is the bound of each
  \<open>select\<close>; whether a round is \<open>NotReady\<close> under it is given with the rounds.\<close>

definition read_responses ::
  "(pystr \<Rightarrow> loads_outcome) \<Rightarrow> read_event list \<Rightarrow> json list \<times> ending \<times> read_event list" where
  "read_responses loads events = read_loop loads [] events"

text \<open>The inner loop of \<open>extract_text\<close> over the content blocks: the values appended.\<close>

fun text_blocks :: "json list \<Rightarrow> json list" where
  "text_blocks [] = []"
| "text_blocks (JObj b # blocks) =
     (if dict_get b (str ''type'') JNull = JStr (str ''text'')
      then dict_get b (str ''text'') (JStr []) # text_blocks blocks
      else text_blocks blocks)"
| "text_blocks (_ # blocks) = text_blocks blocks"

text \<open>The loop of \<open>extract_text\<close> with the list \<open>parts\<close> collected so far. The value of
  a \<open>result\<close> field is returned as it is, whatever its type.\<close>

fun extract_loop :: "json list \<Rightarrow> json list \<Rightarrow> py_exn + json" where
  "extract_loop parts [] =
     (case py_join [] parts of Inl e \<Rightarrow> Inl e | Inr s \<Rightarrow> Inr (JStr s))"
| "extract_loop parts (JObj d # responses) =
     (let msg_type = dict_get d (str ''type'') (JStr [])
      in if msg_type = JStr (str ''result'') then Inr (dict_get d (str ''result'') (JStr []))
         else if msg_type = JStr (str ''assistant'')
         then (case dict_get d (str ''message'') (JObj []) of
                 JObj message \<Rightarrow>
                   (case py_iter (dict_get message (str ''content'') (JArr [])) of
                      Inl e \<Rightarrow> Inl e
                    | Inr content \<Rightarrow> extract_loop (parts @ text_blocks content) responses)
               | _ \<Rightarrow> Inl AttributeError)
         else if msg_type = JStr (str ''content_block_delta'')
         then (case dict_get d (str ''delta'') (JObj []) of
                 JObj delta \<Rightarrow>
                   (if dict_get delta (str ''type'') JNull = JStr (str ''text_delta'')
                    then extract_loop (parts @ [dict_get delta (str ''text'') (JStr [])]) responses
                    else extract_loop parts responses)
               | _ \<Rightarrow> Inl AttributeError)
         else extract_loop parts responses)"
| "extract_loop parts (_ # responses) = Inl AttributeError"

definition extract_text :: "json list \<Rightarrow> py_exn + json" where
  "extract_text responses = extract_loop [] responses"

definition wrap_prompt :: "pystr \<Rightarrow> pystr" where
  "wrap_prompt prompt =
     prompt @ [10, 10] @ str ''---'' @ [10]
     @ str ''IMPORTANT: This is a non-interactive, one-shot execution. You must:'' @ [10]
     @ str ''- Complete the entire task in a single response'' @ [10]
     @ str ''- Do NOT ask clarifying questions'' @ [8212]
     @ str ''make reasonable assumptions and state them'' @ [10]
     @ str ''- Do NOT wait for confirmation'' @ [8212]
     @ str ''proceed with the most sensible approach'' @ [10]
     @ str ''- If multiple interpretations exist, pick the most likely one and note your choice''
     @ [10]
     @ str ''- Provide complete, working output rather than partial solutions''"

text \<open>The surroundings of the client: whether the path of the inbound FIFO exists, the
  rounds to come on the outbound FIFO, and the messages written to the inbound FIFO.\<close>

record world =
  fifo_in_exists :: bool
  incoming :: "read_event list"
  written :: "json list"

definition user_message :: "pystr \<Rightarrow> json" where
  "user_message content =
     JObj [(str ''type'', JStr (str ''user'')),
           (str ''message'',
              JObj [(str ''role'', JStr (str ''user'')), (str ''content'', JStr content)])]"

definition send_message :: "world \<Rightarrow> pystr \<Rightarrow> world" where
  "send_message w content = w\<lparr>written := written w @ [user_message content]\<rparr>"

definition send_clear :: "world \<Rightarrow> world" where
  "send_clear w = w\<lparr>written := written w @ [user_message (str ''/clear'')]\<rparr>"

text \<open>
  \<open>call\<close>: \<open>None\<close> while a read is still waiting, \<open>Some (Inl e)\<close> when the call raises
  \<open>e\<close>, \<open>Some (Inr v)\<close> when it returns \<open>v\<close>; with the surroundings it leaves. Only
  \<open>TimeoutError\<close> is caught around the second read.
\<close>

definition call ::
  "(pystr \<Rightarrow> loads_outcome) \<Rightarrow> world \<Rightarrow> pystr \<Rightarrow> bool \<Rightarrow> bool
     \<Rightarrow> (py_exn + json) option \<times> world" where
  "call loads w prompt clear raw_prompt =
     (if \<not> fifo_in_exists w then (Some (Inl RuntimeError), w)
      else (let prompt' = (if \<not> raw_prompt then wrap_prompt prompt else prompt);
                w1 = send_message w prompt'
            in case read_responses loads (incoming w1) of
                 (responses, e, rest) \<Rightarrow>
                   (let w2 = w1\<lparr>incoming := rest\<rparr>
                    in case e of
                         Waiting \<Rightarrow> (None, w2)
                       | Raised x \<Rightarrow> (Some (Inl x), w2)
                       | Returned \<Rightarrow>
                           (case extract_text responses of
                              Inl x \<Rightarrow> (Some (Inl x), w2)
                            | Inr result \<Rightarrow>
                                if clear
                                then (let w3 = send_clear w2
                                      in case read_responses loads (incoming w3) of
                                           (drained, e', rest') \<Rightarrow>
                                             (let w4 = w3\<lparr>incoming := rest'\<rparr>
                                              in case e' of
                                                   Waiting \<Rightarrow> (None, w4)
                                                 | Returned \<Rightarrow> (Some (Inr result), w4)
                                                 | Raised x \<Rightarrow>
                                                     if x = TimeoutError
                                                     then (Some (Inr result), w4)
                                                     else (Some (Inl x), w4)))
                                else (Some (Inr result), w2)))))"


section \<open>Observations and the terms of the specification\<close>

text \<open>Reading a field of a JSON value along a path of dict keys and list indices.\<close>

datatype path_step = Key pystr | Index nat

fun json_at :: "json \<Rightarrow> path_step list \<Rightarrow> json option" where
  "json_at v [] = Some v"
| "json_at (JObj d) (Key k # p) = (case map_of d k of None \<Rightarrow> None | Some v \<Rightarrow> json_at v p)"
| "json_at (JArr xs) (Index i # p) = (if i < length xs then json_at (xs ! i) p else None)"
| "json_at v (s # p) = None"

fun response_at :: "response \<Rightarrow> path_step list \<Rightarrow> json option" where
  "response_at (JsonResponse code body) p = json_at body p"
| "response_at (EventStream events) p = None"

text \<open>The \<open>delta\<close> and the \<open>finish_reason\<close> of the one choice of a chunk event.\<close>

fun chunk_delta :: "sse_event \<Rightarrow> json option" where
  "chunk_delta (SseData d) = json_at d [Key (str ''choices''), Index 0, Key (str ''delta'')]"
| "chunk_delta SseDone = None"

fun chunk_finish_reason :: "sse_event \<Rightarrow> json option" where
  "chunk_finish_reason (SseData d) =
     json_at d [Key (str ''choices''), Index 0, Key (str ''finish_reason'')]"
| "chunk_finish_reason SseDone = None"

text \<open>The type of an envelope, as \<open>msg.get("type", "")\<close> reads it.\<close>

definition envelope_type :: "json \<Rightarrow> json" where
  "envelope_type msg = (case msg of JObj d \<Rightarrow> dict_get d (str ''type'') (JStr []) | _ \<Rightarrow> JNull)"

text \<open>
  An envelope in the sense of the data model: a JSON object; an \<open>assistant\<close> envelope
  carries a \<open>message\<close> object whose \<open>content\<close> is a sequence, a
  \<open>content_block_delta\<close> envelope carries a \<open>delta\<close> object (an absent field counts
  as empty, as the aggregator reads it). These are the values the loop of
  \<open>extract_text\<close> reads without raising.
\<close>

fun envelope_readable :: "json \<Rightarrow> bool" where
  "envelope_readable (JObj d) =
     (let msg_type = dict_get d (str ''type'') (JStr [])
      in if msg_type = JStr (str ''assistant'')
         then (case dict_get d (str ''message'') (JObj []) of
                 JObj message \<Rightarrow>
                   (case py_iter (dict_get message (str ''content'') (JArr [])) of
                      Inl e \<Rightarrow> False
                    | Inr content \<Rightarrow> True)
               | _ \<Rightarrow> False)
         else if msg_type = JStr (str ''content_block_delta'')
         then (case dict_get d (str ''delta'') (JObj []) of JObj delta \<Rightarrow> True | _ \<Rightarrow> False)
         else True)"
| "envelope_readable _ = False"

text \<open>
  Following the specification (section 4.3): the text fragments one envelope contributes.
  An \<open>assistant\<close> envelope contributes the text of every \<open>text\<close>-kind content block, a
  \<open>content_block_delta\<close> envelope with a \<open>text_delta\<close> contributes its text, every
  other envelope contributes nothing.
\<close>

fun spec_block_fragment :: "json \<Rightarrow> json list" where
  "spec_block_fragment (JObj b) =
     (if dict_get b (str ''type'') JNull = JStr (str ''text'')
      then [dict_get b (str ''text'') (JStr [])] else [])"
| "spec_block_fragment _ = []"

fun spec_fragments :: "json \<Rightarrow> json list" where
  "spec_fragments (JObj d) =
     (if dict_get d (str ''type'') (JStr []) = JStr (str ''assistant'')
      then (case dict_get d (str ''message'') (JObj []) of
              JObj message \<Rightarrow>
                (case dict_get message (str ''content'') (JArr []) of
                   JArr blocks \<Rightarrow> concat (map spec_block_fragment blocks)
                 | _ \<Rightarrow> [])
            | _ \<Rightarrow> [])
      else if dict_get d (str ''type'') (JStr []) = JStr (str ''content_block_delta'')
      then (case dict_get d (str ''delta'') (JObj []) of
              JObj delta \<Rightarrow>
                (if dict_get delta (str ''type'') JNull = JStr (str ''text_delta'')
                 then [dict_get delta (str ''text'') (JStr [])] else [])
            | _ \<Rightarrow> [])
      else [])"
| "spec_fragments _ = []"















section \<open>Auxiliary functions of the proofs\<close>






section \<open>Concrete inputs\<close>

text \<open>A gateway without API key and without forced agent, whose agent prints \<open>ok\<close>.\<close>

definition example_gateway :: gateway where
  "example_gateway =
     \<lparr>API_KEY = [], FORCE_AGENT = [], SCRIPT_DIR = str ''/opt/gateway'',
      py_str = (\<lambda>v. []), exn_str = (\<lambda>e. []), json_dumps = (\<lambda>v. []),
      subprocess_run = (\<lambda>cmd timeout cwd. Completed 0 (str ''ok'') []),
      uuid4_hex = str ''0123456789abcdef0123456789abcdef'', time_now = 1700000000\<rparr>"

definition example_messages :: json where
  "example_messages =
     JArr [JObj [(str ''role'', JStr (str ''user'')),
                 (str ''content'', JStr (str ''one two three four''))]]"

definition example_request :: request where
  "example_request =
     \<lparr>authorization = None, get_json = Inr (JObj [(str ''messages'', example_messages)])\<rparr>"

definition example_text45 :: pystr where
  "example_text45 = str ''The quick brown fox jumps over the lazy dog!!''"

definition example_assistant :: json where
  "example_assistant =
     JObj [(str ''type'', JStr (str ''assistant'')),
           (str ''message'',
              JObj [(str ''content'',
                       JArr [JObj [(str ''type'', JStr (str ''text'')),
                                   (str ''text'', JStr (str ''Hello, ''))],
                             JObj [(str ''type'', JStr (str ''tool_use''))]])])]"

definition example_system :: json where
  "example_system = JObj [(str ''type'', JStr (str ''system''))]"

definition example_delta :: json where
  "example_delta =
     JObj [(str ''type'', JStr (str ''content_block_delta'')),
           (str ''delta'',
              JObj [(str ''type'', JStr (str ''text_delta'')), (str ''text'', JStr (str ''world''))])]"

definition example_result :: pydict where
  "example_result =
     [(str ''type'', JStr (str ''result'')), (str ''result'', JStr (str ''final answer''))]"

definition example_error :: pydict where
  "example_error = [(str ''type'', JStr (str ''error''))]"



text \<open>Requests that name a model, and a gateway whose agent fails with \<open>boom\<close>.\<close>

definition opus_request :: request where
  "opus_request =
     \<lparr>authorization = None,
      get_json = Inr (JObj [(str ''model'', JStr (str ''claude-code-opus'')),
                            (str ''messages'', example_messages)])\<rparr>"

definition unknown_request :: request where
  "unknown_request =
     \<lparr>authorization = None,
      get_json = Inr (JObj [(str ''model'', JStr (str ''gpt-4'')),
                            (str ''messages'', example_messages)])\<rparr>"

definition failing_gateway :: gateway where
  "failing_gateway =
     example_gateway\<lparr>subprocess_run := (\<lambda>cmd timeout cwd. Completed 1 [] (str ''boom''))\<rparr>"

text \<open>A stand-in for \<open>json.loads\<close>: four lines decode, one makes it raise
  \<open>ValueError\<close>, every other line is rejected with \<open>JSONDecodeError\<close>; and rounds of
  reading that deliver such lines.\<close>

definition example_loads :: "pystr \<Rightarrow> loads_outcome" where
  "example_loads line =
     (if line = str ''RESULT'' then Decoded (JObj example_result)
      else if line = str ''ASSISTANT'' then Decoded example_assistant
      else if line = str ''SYSTEM'' then Decoded example_system
      else if line = str ''ERROR'' then Decoded (JObj example_error)
      else if line = str ''HUGE'' then LoadsRaised ValueError
      else JSONDecodeError)"

definition example_world :: world where
  "example_world =
     \<lparr>fifo_in_exists = True,
      incoming = [Data (str ''ASSISTANT'' @ [10] @ str ''RES''), Data (str ''ULT'' @ [10]), NotReady],
      written = []\<rparr>"


definition faulty_events :: "read_event list" where
  "faulty_events =
     [Data (str ''ASSISTANT'' @ [10] @ str ''HUGE'' @ [10] @ str ''RESULT'' @ [10])]"


section \<open>The gateway: usage estimate and streaming\<close>

lemma chat_completions_try_200:
  assumes "chat_completions_try g req = Inr (JsonResponse 200 body)"
  shows "\<exists>content model. body = create_response g content model None 0 0"
  using assms
  by (auto simp: chat_completions_try_def invoke_and_respond_def respond_def
           split: sum.splits if_splits json.splits option.splits)

lemma chat_completions_200:
  assumes "chat_completions g req = JsonResponse 200 body"
  shows "\<exists>content model. body = create_response g content model None 0 0"
  using assms chat_completions_try_200 [of g req body]
  by (auto simp: chat_completions_def internal_error_def split: if_splits sum.splits)

lemma chat_completions_stream:
  assumes "chat_completions g req = EventStream events"
  shows "\<exists>content model. events = stream_response g content model"
  using assms
  by (auto simp: chat_completions_def internal_error_def chat_completions_try_def
        invoke_and_respond_def respond_def
      split: sum.splits if_splits json.splits option.splits)

lemma create_response_content:
  "json_at (create_response g content model None 0 0)
     [Key (str ''choices''), Index 0, Key (str ''message''), Key (str ''content'')]
   = Some (JStr content)"
  by (simp add: create_response_def Let_def str_def)

lemma create_response_prompt_tokens:
  "json_at (create_response g content model None 0 0)
     [Key (str ''usage''), Key (str ''prompt_tokens'')]
   = Some (JNum (int (length (py_split content)) div 2))"
  by (simp add: create_response_def Let_def str_def)

lemma create_response_completion_tokens:
  "json_at (create_response g content model None 0 0)
     [Key (str ''usage''), Key (str ''completion_tokens'')]
   = Some (JNum (int (length (py_split content))))"
  by (simp add: create_response_def Let_def str_def)

lemma example_prompt:
  "messages_to_prompt example_gateway example_messages = Inr (str ''one two three four'')"
  by (simp add: messages_to_prompt_def example_messages_def dict_get_def str_def)

lemma example_split:
  "py_split (str ''one two three four'') = [str ''one'', str ''two'', str ''three'', str ''four'']"
  by (simp add: py_split_def str_def isspace_def)

lemma example_response:
  "chat_completions example_gateway example_request =
     JsonResponse 200
       (create_response example_gateway (str ''ok'') (JStr (str ''claude-code'')) None 0 0)"
  by (simp add: chat_completions_def check_auth_def chat_completions_try_def example_gateway_def
        example_request_def example_messages_def request_messages_def request_model_def
        request_stream_def request_response_format_def request_context_def dict_get_def
        MODEL_MAP_def messages_to_prompt_def invoke_and_respond_def respond_def call_agent_def
        py_strip_def isspace_def str_def)

text \<open>
  C1 (as amended). Every completion object the handler returns with status 200 carries
  usage estimates taken from the completion text alone: \<open>prompt_tokens\<close> is the number
  of whitespace-delimited words of the completion text, floor-divided by 2, and
  \<open>completion_tokens\<close> is that number of words. The prompt is not counted.
\<close>

theorem usage_estimated_from_completion:
  assumes "chat_completions g req = JsonResponse 200 body"
  shows "\<exists>content.
           json_at body [Key (str ''choices''), Index 0, Key (str ''message''), Key (str ''content'')]
             = Some (JStr content)
         \<and> json_at body [Key (str ''usage''), Key (str ''prompt_tokens'')]
             = Some (JNum (int (length (py_split content)) div 2))
         \<and> json_at body [Key (str ''usage''), Key (str ''completion_tokens'')]
             = Some (JNum (int (length (py_split content))))"
proof -
  from chat_completions_200 [OF assms] obtain content model
    where body: "body = create_response g content model None 0 0" by blast
  show ?thesis
    unfolding body
    using create_response_content create_response_prompt_tokens create_response_completion_tokens
    by blast
qed

theorem usage_estimated_from_completion_witness:
  "chat_completions example_gateway example_request =
     JsonResponse 200
       (create_response example_gateway (str ''ok'') (JStr (str ''claude-code'')) None 0 0)
   \<and> (\<exists>content.
         json_at (create_response example_gateway (str ''ok'') (JStr (str ''claude-code'')) None 0 0)
           [Key (str ''choices''), Index 0, Key (str ''message''), Key (str ''content'')]
           = Some (JStr content)
       \<and> json_at (create_response example_gateway (str ''ok'') (JStr (str ''claude-code'')) None 0 0)
           [Key (str ''usage''), Key (str ''prompt_tokens'')]
           = Some (JNum (int (length (py_split content)) div 2))
       \<and> json_at (create_response example_gateway (str ''ok'') (JStr (str ''claude-code'')) None 0 0)
           [Key (str ''usage''), Key (str ''completion_tokens'')]
           = Some (JNum (int (length (py_split content)))))"
  using example_response usage_estimated_from_completion [OF example_response] by blast

text \<open>
  C1 as stated fails: the request whose prompt is \<open>one two three four\<close> (four words, so
  the claim asks for \<open>prompt_tokens = 2\<close>) and whose agent answers \<open>ok\<close> gets status 200
  with \<open>prompt_tokens = 0\<close>.
\<close>

theorem prompt_tokens_counterexample:
  "messages_to_prompt example_gateway example_messages = Inr (str ''one two three four'')
   \<and> int (length (py_split (str ''one two three four''))) div 2 = 2
   \<and> status (chat_completions example_gateway example_request) = 200
   \<and> response_at (chat_completions example_gateway example_request)
        [Key (str ''usage''), Key (str ''prompt_tokens'')] = Some (JNum 0)"
proof -
  have "py_split (str ''ok'') = [str ''ok'']"
    by (simp add: py_split_def str_def isspace_def)
  then show ?thesis
    by (simp add: example_prompt example_split example_response create_response_prompt_tokens)
qed

lemma content_chunks_Nil: "content_chunks [] = []"
  by (simp add: content_chunks_def chunk_size_def)

lemma upt3: "[0..<3] = [0, Suc 0, Suc (Suc 0)]"
  by (simp add: upt_rec)

lemma content_chunks_45:
  "length content = 45 \<Longrightarrow>
   content_chunks content = [take 20 content, take 20 (drop 20 content), drop 40 content]"
  by (simp add: content_chunks_def chunk_size_def upt3)

lemma stream_response_45:
  assumes "length content = 45"
  shows "stream_response g content model =
     [SseData (chunk_data (generate_completion_id g) (time_now g) model 3 0 (take 20 content)),
      SseData (chunk_data (generate_completion_id g) (time_now g) model 3 1
                 (take 20 (drop 20 content))),
      SseData (chunk_data (generate_completion_id g) (time_now g) model 3 2 (drop 40 content)),
      SseDone]"
  using assms
  by (simp add: stream_response_def content_chunks_45 enumerate_eq_zip upt3 Let_def
        numeral_3_eq_3 numeral_2_eq_2)

lemma chunk_delta_data:
  "chunk_delta (SseData (chunk_data cid t model n i chunk)) =
     Some (if chunk \<noteq> [] then JObj [(str ''content'', JStr chunk)] else JObj [])"
  by (simp add: chunk_data_def str_def)

lemma chunk_finish_reason_data:
  "chunk_finish_reason (SseData (chunk_data cid t model n i chunk)) =
     Some (if int i < int n - 1 then JNull else JStr (str ''stop''))"
  by (simp add: chunk_data_def str_def)

lemma example_text45_length: "length example_text45 = 45"
  by (simp add: example_text45_def str_def)

text \<open>
  C2 (as amended). For a completed text of 45 characters the stream has exactly four
  events: three chunk events whose deltas carry the first 20, the next 20 and the last 5
  characters of the text, and the sentinel \<open>data: [DONE]\<close>. The finish reason of the
  first two chunks is null and the third chunk itself carries the finish reason
  \<open>stop\<close>; there is no separate stop event.
\<close>

theorem stream_45_last_chunk_stops:
  assumes "length content = 45"
  shows "length (stream_response g content model) = 4
    \<and> map chunk_delta (stream_response g content model) =
        [Some (JObj [(str ''content'', JStr (take 20 content))]),
         Some (JObj [(str ''content'', JStr (take 20 (drop 20 content)))]),
         Some (JObj [(str ''content'', JStr (drop 40 content))]),
         None]
    \<and> map length [take 20 content, take 20 (drop 20 content), drop 40 content] = [20, 20, 5]
    \<and> take 20 content @ take 20 (drop 20 content) @ drop 40 content = content
    \<and> map chunk_finish_reason (stream_response g content model) =
        [Some JNull, Some JNull, Some (JStr (str ''stop'')), None]
    \<and> stream_response g content model ! 3 = SseDone"
proof -
  have nonempty: "take 20 content \<noteq> []" "take 20 (drop 20 content) \<noteq> []" "drop 40 content \<noteq> []"
    using assms by auto
  have parts: "take 20 content @ take 20 (drop 20 content) @ drop 40 content = content"
    by (metis append_take_drop_id drop_drop numeral_Bit0 append.assoc add.commute)
  show ?thesis
    using assms nonempty parts
    by (simp add: stream_response_45 chunk_delta_data chunk_finish_reason_data
          del: chunk_delta.simps(1) chunk_finish_reason.simps(1))
qed

theorem stream_45_last_chunk_stops_witness:
  "length example_text45 = 45
   \<and> map chunk_delta (stream_response example_gateway example_text45 (JStr (str ''claude-code''))) =
        [Some (JObj [(str ''content'', JStr (str ''The quick brown fox ''))]),
         Some (JObj [(str ''content'', JStr (str ''jumps over the lazy ''))]),
         Some (JObj [(str ''content'', JStr (str ''dog!!''))]),
         None]
   \<and> map chunk_finish_reason
        (stream_response example_gateway example_text45 (JStr (str ''claude-code''))) =
        [Some JNull, Some JNull, Some (JStr (str ''stop'')), None]"
  using stream_45_last_chunk_stops [of example_text45 example_gateway "JStr (str ''claude-code'')"]
  by (simp add: example_text45_def str_def)

text \<open>
  C2 as stated fails: it asks for five events (three chunks, a separate stop event, the
  sentinel). For the 45 characters of \<open>example_text45\<close> the stream does not have five
  events: its fourth event is already the sentinel, and the third event carries both the
  last five characters and the finish reason \<open>stop\<close>.
\<close>

theorem stream_45_separate_stop_counterexample:
  "length example_text45 = 45
   \<and> length (stream_response example_gateway example_text45 (JStr (str ''claude-code''))) \<noteq> 5
   \<and> stream_response example_gateway example_text45 (JStr (str ''claude-code'')) ! 3 = SseDone
   \<and> chunk_delta (stream_response example_gateway example_text45 (JStr (str ''claude-code'')) ! 2)
       = Some (JObj [(str ''content'', JStr (str ''dog!!''))])
   \<and> chunk_finish_reason
        (stream_response example_gateway example_text45 (JStr (str ''claude-code'')) ! 2)
       = Some (JStr (str ''stop''))"
  by (simp add: stream_response_45 example_text45_length chunk_delta_data chunk_finish_reason_data
        del: chunk_delta.simps(1) chunk_finish_reason.simps(1))
     (simp add: example_text45_def str_def)

text \<open>
  C10. For the empty completed text the stream is never empty: it has exactly one chunk
  event, whose delta is the empty object and whose finish reason is \<open>stop\<close>, followed by
  the sentinel \<open>data: [DONE]\<close>.
\<close>

theorem empty_stream_one_chunk:
  "stream_response g [] model =
     [SseData (JObj [(str ''id'', JStr (generate_completion_id g)),
           (str ''object'', JStr (str ''chat.completion.chunk'')),
           (str ''created'', JNum (time_now g)),
           (str ''model'', model),
           (str ''choices'',
              JArr [JObj [(str ''index'', JNum 0),
                          (str ''delta'', JObj []),
                          (str ''finish_reason'', JStr (str ''stop''))]])]),
      SseDone]"
  by (simp add: stream_response_def content_chunks_Nil chunk_data_def enumerate_eq_zip)

section \<open>The client: the aggregator\<close>

lemma type_names_distinct:
  "str ''result'' \<noteq> str ''assistant''" "str ''assistant'' \<noteq> str ''result''"
  "str ''result'' \<noteq> str ''content_block_delta''" "str ''content_block_delta'' \<noteq> str ''result''"
  "str ''assistant'' \<noteq> str ''content_block_delta''"
  "str ''content_block_delta'' \<noteq> str ''assistant''"
  "str ''error'' \<noteq> str ''result''" "str ''error'' \<noteq> str ''assistant''"
  "str ''error'' \<noteq> str ''content_block_delta''"
  by (simp_all add: str_def)

lemma text_blocks_spec: "text_blocks blocks = concat (map spec_block_fragment blocks)"
  by (induction blocks rule: text_blocks.induct) simp_all

lemma text_blocks_strs: "text_blocks (map (\<lambda>c. JStr (f c)) xs) = []"
  by (induction xs) simp_all

lemma extract_loop_step:
  assumes "envelope_readable (JObj d)"
    and "dict_get d (str ''type'') (JStr []) \<noteq> JStr (str ''result'')"
  shows "extract_loop parts (JObj d # rest) = extract_loop (parts @ spec_fragments (JObj d)) rest"
proof -
  consider (assistant) "dict_get d (str ''type'') (JStr []) = JStr (str ''assistant'')"
    | (delta) "dict_get d (str ''type'') (JStr []) = JStr (str ''content_block_delta'')"
    | (other) "dict_get d (str ''type'') (JStr []) \<noteq> JStr (str ''assistant'')"
        "dict_get d (str ''type'') (JStr []) \<noteq> JStr (str ''content_block_delta'')"
    by blast
  then show ?thesis
  proof cases
    case assistant
    with assms(1) obtain message where m: "dict_get d (str ''message'') (JObj []) = JObj message"
      by (cases "dict_get d (str ''message'') (JObj [])") (simp_all add: type_names_distinct)
    with assms(1) assistant obtain content
      where c: "py_iter (dict_get message (str ''content'') (JArr [])) = Inr content"
      by (cases "py_iter (dict_get message (str ''content'') (JArr []))")
         (simp_all add: type_names_distinct)
    have "text_blocks content =
            (case dict_get message (str ''content'') (JArr []) of
               JArr blocks \<Rightarrow> concat (map spec_block_fragment blocks) | _ \<Rightarrow> [])"
      using c
      by (cases "dict_get message (str ''content'') (JArr [])")
         (auto simp: text_blocks_spec text_blocks_strs)
    then show ?thesis
      using assistant m c by (simp add: type_names_distinct Let_def)
  next
    case delta
    with assms(1) obtain dl where m: "dict_get d (str ''delta'') (JObj []) = JObj dl"
      by (cases "dict_get d (str ''delta'') (JObj [])") (simp_all add: type_names_distinct)
    show ?thesis
      using delta m by (simp add: type_names_distinct Let_def)
  next
    case other
    then show ?thesis using assms(2) by (simp add: Let_def)
  qed
qed

lemma extract_loop_result:
  assumes "list_all envelope_readable pre"
    and "list_all (\<lambda>e. envelope_type e \<noteq> JStr (str ''result'')) pre"
    and "dict_get d (str ''type'') (JStr []) = JStr (str ''result'')"
  shows "extract_loop parts (pre @ JObj d # post) = Inr (dict_get d (str ''result'') (JStr []))"
  using assms
proof (induction pre arbitrary: parts)
  case Nil
  then show ?case by simp
next
  case (Cons e pre)
  then obtain d' where e: "e = JObj d'" by (cases e) simp_all
  from Cons.prems have rest: "list_all envelope_readable pre"
    "list_all (\<lambda>e. envelope_type e \<noteq> JStr (str ''result'')) pre" by simp_all
  note IH = Cons.IH [OF rest Cons.prems(3)]
  from Cons.prems e have nores: "dict_get d' (str ''type'') (JStr []) \<noteq> JStr (str ''result'')"
    and rd: "envelope_readable (JObj d')"
    by (simp_all add: envelope_type_def)
  show ?case
    unfolding e using extract_loop_step [OF rd nores] IH by simp
qed

lemma extract_loop_no_result:
  assumes "list_all envelope_readable envs"
    and "list_all (\<lambda>e. envelope_type e \<noteq> JStr (str ''result'')) envs"
  shows "extract_loop parts envs =
           (case py_join [] (parts @ concat (map spec_fragments envs)) of
              Inl e \<Rightarrow> Inl e | Inr s \<Rightarrow> Inr (JStr s))"
  using assms
proof (induction envs arbitrary: parts)
  case Nil
  then show ?case by simp
next
  case (Cons e envs)
  then obtain d where e: "e = JObj d" by (cases e) simp_all
  from Cons.prems have rest: "list_all envelope_readable envs"
    "list_all (\<lambda>e. envelope_type e \<noteq> JStr (str ''result'')) envs" by simp_all
  note IH = Cons.IH [OF rest]
  from Cons.prems e have nores: "dict_get d (str ''type'') (JStr []) \<noteq> JStr (str ''result'')"
    and rd: "envelope_readable (JObj d)"
    by (simp_all add: envelope_type_def)
  show ?case
    unfolding e using extract_loop_step [OF rd nores] IH by simp
qed

lemma join_strs_empty: "join_strs [] ss = concat ss"
  by (induction "[] :: pystr" ss rule: join_strs.induct) simp_all

lemma spec_fragments_other:
  assumes "envelope_type e \<noteq> JStr (str ''assistant'')"
    and "envelope_type e \<noteq> JStr (str ''content_block_delta'')"
  shows "spec_fragments e = []"
  using assms by (cases e) (simp_all add: envelope_type_def)

lemma spec_fragments_filter:
  "concat (map spec_fragments
     (filter (\<lambda>e. envelope_type e = JStr (str ''assistant'')
                 \<or> envelope_type e = JStr (str ''content_block_delta'')) envs))
   = concat (map spec_fragments envs)"
  by (induction envs) (simp_all add: spec_fragments_other)

lemma list_all_filter: "list_all P xs \<Longrightarrow> list_all P (filter Q xs)"
  by (induction xs) simp_all

lemma extract_text_no_result:
  assumes "list_all envelope_readable envs"
    and "list_all (\<lambda>e. envelope_type e \<noteq> JStr (str ''result'')) envs"
    and "str_items (concat (map spec_fragments envs)) = Some texts"
  shows "extract_text envs = Inr (JStr (concat texts))"
  using extract_loop_no_result [OF assms(1,2), of "[]"] assms(3)
  by (simp add: extract_text_def py_join_def join_strs_empty)

text \<open>
  C3. For every sequence of envelopes that contains an envelope of type \<open>result\<close>, the
  aggregator returns exactly the \<open>result\<close> field of the first such envelope (the empty
  string when the field is absent), whatever text the \<open>assistant\<close> and
  \<open>content_block_delta\<close> envelopes before it carry and whatever follows it.
\<close>

theorem result_overrides_fragments:
  assumes "list_all envelope_readable pre"
    and "list_all (\<lambda>e. envelope_type e \<noteq> JStr (str ''result'')) pre"
    and "dict_get d (str ''type'') (JStr []) = JStr (str ''result'')"
  shows "extract_text (pre @ JObj d # post) = Inr (dict_get d (str ''result'') (JStr []))"
  unfolding extract_text_def using assms by (rule extract_loop_result)

theorem result_overrides_fragments_witness:
  "list_all envelope_readable [example_assistant, example_delta]
   \<and> list_all (\<lambda>e. envelope_type e \<noteq> JStr (str ''result'')) [example_assistant, example_delta]
   \<and> dict_get example_result (str ''type'') (JStr []) = JStr (str ''result'')
   \<and> extract_text ([example_assistant, example_delta] @ JObj example_result # [example_system])
       = Inr (JStr (str ''final answer''))"
proof -
  have a: "list_all envelope_readable [example_assistant, example_delta]"
    by (simp add: example_assistant_def example_delta_def dict_get_def str_def)
  have b: "list_all (\<lambda>e. envelope_type e \<noteq> JStr (str ''result''))
             [example_assistant, example_delta]"
    by (simp add: example_assistant_def example_delta_def envelope_type_def dict_get_def str_def)
  have c: "dict_get example_result (str ''type'') (JStr []) = JStr (str ''result'')"
    by (simp add: example_result_def dict_get_def str_def)
  have d: "dict_get example_result (str ''result'') (JStr []) = JStr (str ''final answer'')"
    by (simp add: example_result_def dict_get_def str_def)
  show ?thesis
    using a b c d result_overrides_fragments [OF a b c, of "[example_system]"] by simp
qed

text \<open>
  C4. For every sequence of envelopes without a \<open>result\<close> envelope whose text
  fragments are strings, the aggregator returns the concatenation, in arrival order and
  without separators, of the fragments of the specification: the text of every
  \<open>text\<close>-kind block of the \<open>assistant\<close> envelopes and of every \<open>text_delta\<close> of the
  \<open>content_block_delta\<close> envelopes. Envelopes of every other type contribute nothing:
  leaving them out does not change the result, and a lone \<open>error\<close> envelope gives the
  empty string.
\<close>

theorem fragments_concatenated:
  assumes "list_all envelope_readable envs"
    and "list_all (\<lambda>e. envelope_type e \<noteq> JStr (str ''result'')) envs"
    and "str_items (concat (map spec_fragments envs)) = Some texts"
  shows "extract_text envs = Inr (JStr (concat texts))
    \<and> extract_text (filter (\<lambda>e. envelope_type e = JStr (str ''assistant'')
                               \<or> envelope_type e = JStr (str ''content_block_delta'')) envs)
        = extract_text envs
    \<and> (\<forall>d. dict_get d (str ''type'') (JStr []) = JStr (str ''error'')
          \<longrightarrow> extract_text [JObj d] = Inr (JStr []))"
proof (intro conjI allI impI)
  show main: "extract_text envs = Inr (JStr (concat texts))"
    using assms by (rule extract_text_no_result)
  let ?keep = "\<lambda>e. envelope_type e = JStr (str ''assistant'')
                 \<or> envelope_type e = JStr (str ''content_block_delta'')"
  have "extract_text (filter ?keep envs) = Inr (JStr (concat texts))"
    using assms
    by (intro extract_text_no_result list_all_filter) (simp_all add: spec_fragments_filter)
  then show "extract_text (filter ?keep envs) = extract_text envs"
    using main by simp
next
  fix d assume "dict_get d (str ''type'') (JStr []) = JStr (str ''error'')"
  then show "extract_text [JObj d] = Inr (JStr [])"
    by (simp add: extract_text_def type_names_distinct py_join_def Let_def)
qed

theorem fragments_concatenated_witness:
  "list_all envelope_readable [example_assistant, example_system, example_delta]
   \<and> list_all (\<lambda>e. envelope_type e \<noteq> JStr (str ''result''))
       [example_assistant, example_system, example_delta]
   \<and> str_items (concat (map spec_fragments [example_assistant, example_system, example_delta]))
       = Some [str ''Hello, '', str ''world'']
   \<and> extract_text [example_assistant, example_system, example_delta]
       = Inr (JStr (str ''Hello, world''))
   \<and> extract_text [example_assistant, example_delta]
       = extract_text [example_assistant, example_system, example_delta]
   \<and> dict_get example_error (str ''type'') (JStr []) = JStr (str ''error'')
   \<and> extract_text [JObj example_error] = Inr (JStr [])"
proof -
  let ?envs = "[example_assistant, example_system, example_delta]"
  have a: "list_all envelope_readable ?envs"
    by (simp add: example_assistant_def example_delta_def example_system_def dict_get_def str_def)
  have b: "list_all (\<lambda>e. envelope_type e \<noteq> JStr (str ''result'')) ?envs"
    by (simp add: example_assistant_def example_delta_def example_system_def envelope_type_def
          dict_get_def str_def)
  have c: "str_items (concat (map spec_fragments ?envs)) = Some [str ''Hello, '', str ''world'']"
    by (simp add: example_assistant_def example_delta_def example_system_def dict_get_def str_def)
  have e: "dict_get example_error (str ''type'') (JStr []) = JStr (str ''error'')"
    by (simp add: example_error_def dict_get_def str_def)
  have f: "filter (\<lambda>e. envelope_type e = JStr (str ''assistant'')
                      \<or> envelope_type e = JStr (str ''content_block_delta'')) ?envs
           = [example_assistant, example_delta]"
    by (simp add: example_assistant_def example_delta_def example_system_def envelope_type_def
          dict_get_def str_def)
  have g: "concat [str ''Hello, '', str ''world''] = str ''Hello, world''"
    by (simp add: str_def)
  show ?thesis
    using a b c e fragments_concatenated [OF a b c] by (simp only: f g)
qed

section \<open>The gateway: routing and failures of the agent\<close>

lemma truthy_messages_nonempty: "truthy (request_messages d) \<Longrightarrow> d \<noteq> []"
  by (auto simp: request_messages_def dict_get_def)

lemma chat_completions_routed:
  assumes "check_auth g req" and "get_json req = Inr (JObj d)" and "truthy (request_messages d)"
    and "MODEL_MAP_get (request_model d) = Inr (Some model_config)"
  shows "chat_completions g req =
           (case invoke_and_respond g d
                   (if FORCE_AGENT g \<noteq> [] then FORCE_AGENT g else fst model_config)
                   (if FORCE_AGENT g \<noteq> [] then None else snd model_config) of
              Inr r \<Rightarrow> r
            | Inl e \<Rightarrow> internal_error g e)"
  using assms truthy_messages_nonempty [OF assms(3)]
  by (simp add: chat_completions_def chat_completions_try_def)

lemma chat_completions_unknown:
  assumes "check_auth g req" and "get_json req = Inr (JObj d)" and "truthy (request_messages d)"
    and "MODEL_MAP_get (request_model d) = Inr None"
  shows "chat_completions g req =
           JsonResponse 400
             (error_body (str ''Unknown model: '' @ format_value g (request_model d))
                (Some (str ''invalid_request_error'')))"
  using assms truthy_messages_nonempty [OF assms(3)]
  by (simp add: chat_completions_def chat_completions_try_def)

lemma MODEL_MAP_opus:
  "map_of MODEL_MAP (str ''claude-code-opus'') = Some (str ''claude'', Some (str ''opus''))"
  by (simp add: MODEL_MAP_def str_def)

lemma MODEL_MAP_default:
  "map_of MODEL_MAP (str ''claude-code'') = Some (str ''claude'', None)"
  by (simp add: MODEL_MAP_def str_def)

lemma error_body_type:
  "json_at (error_body message (Some t)) [Key (str ''error''), Key (str ''type'')] = Some (JStr t)"
  by (simp add: error_body_def str_def)

text \<open>
  C7. For an authenticated request whose body is an object with non-empty messages:
  when the model is \<open>claude-code-opus\<close> and no agent is forced, the routing table gives
  agent \<open>claude\<close> with sub-model \<open>opus\<close> and the handler answers with what the
  invocation of that agent and sub-model gives; when the model is a name that is not a
  key of the routing table, the handler answers with status 400 and an error of type
  \<open>invalid_request_error\<close>.
\<close>

theorem model_routing:
  assumes "check_auth g req" and "get_json req = Inr (JObj d)" and "truthy (request_messages d)"
  shows "(request_model d = JStr (str ''claude-code-opus'') \<and> FORCE_AGENT g = []
            \<longrightarrow> MODEL_MAP_get (request_model d) = Inr (Some (str ''claude'', Some (str ''opus'')))
              \<and> chat_completions g req =
                  (case invoke_and_respond g d (str ''claude'') (Some (str ''opus'')) of
                     Inr r \<Rightarrow> r
                   | Inl e \<Rightarrow> internal_error g e))
       \<and> (\<forall>name. request_model d = JStr name \<and> map_of MODEL_MAP name = None
            \<longrightarrow> status (chat_completions g req) = 400
              \<and> response_at (chat_completions g req) [Key (str ''error''), Key (str ''type'')]
                  = Some (JStr (str ''invalid_request_error'')))"
proof (intro conjI allI impI)
  assume a: "request_model d = JStr (str ''claude-code-opus'') \<and> FORCE_AGENT g = []"
  then show m: "MODEL_MAP_get (request_model d) = Inr (Some (str ''claude'', Some (str ''opus'')))"
    by (simp add: MODEL_MAP_opus)
  from chat_completions_routed [OF assms m] a
  show "chat_completions g req =
          (case invoke_and_respond g d (str ''claude'') (Some (str ''opus'')) of
             Inr r \<Rightarrow> r
           | Inl e \<Rightarrow> internal_error g e)"
    by simp
next
  fix name
  assume a: "request_model d = JStr name \<and> map_of MODEL_MAP name = None"
  then have n: "MODEL_MAP_get (request_model d) = Inr None" by simp
  from chat_completions_unknown [OF assms n]
  show "status (chat_completions g req) = 400" by simp
  from chat_completions_unknown [OF assms n]
  show "response_at (chat_completions g req) [Key (str ''error''), Key (str ''type'')]
          = Some (JStr (str ''invalid_request_error''))"
    by (simp add: error_body_type)
qed

lemma example_auth: "check_auth example_gateway req"
  by (simp add: check_auth_def example_gateway_def)

lemma example_messages_truthy: "truthy example_messages"
  by (simp add: example_messages_def)

lemma opus_agent_command:
  "agent_command example_gateway (str ''one two three four'') (str ''claude'') (Some (str ''opus''))
     JNull None
   = [JStr (str ''/opt/gateway/agent-call''), JStr (str ''-a''), JStr (str ''claude''),
      JStr (str ''-q''), JStr (str ''-m''), JStr (str ''opus''), JStr (str ''one two three four'')]"
  by (simp add: agent_command_def AGENT_CALL_def example_gateway_def str_def)

theorem model_routing_witness:
  "check_auth example_gateway opus_request
   \<and> get_json opus_request
       = Inr (JObj [(str ''model'', JStr (str ''claude-code-opus'')),
                    (str ''messages'', example_messages)])
   \<and> truthy (request_messages [(str ''model'', JStr (str ''claude-code-opus'')),
                                 (str ''messages'', example_messages)])
   \<and> request_model [(str ''model'', JStr (str ''claude-code-opus'')),
                      (str ''messages'', example_messages)] = JStr (str ''claude-code-opus'')
   \<and> FORCE_AGENT example_gateway = []
   \<and> chat_completions example_gateway opus_request =
        JsonResponse 200
          (create_response example_gateway (str ''ok'') (JStr (str ''claude-code-opus'')) None 0 0)
   \<and> check_auth example_gateway unknown_request
   \<and> get_json unknown_request
       = Inr (JObj [(str ''model'', JStr (str ''gpt-4'')), (str ''messages'', example_messages)])
   \<and> request_model [(str ''model'', JStr (str ''gpt-4'')), (str ''messages'', example_messages)]
       = JStr (str ''gpt-4'')
   \<and> map_of MODEL_MAP (str ''gpt-4'') = None
   \<and> status (chat_completions example_gateway unknown_request) = 400
   \<and> response_at (chat_completions example_gateway unknown_request)
        [Key (str ''error''), Key (str ''type'')] = Some (JStr (str ''invalid_request_error''))"
proof -
  let ?d = "[(str ''model'', JStr (str ''claude-code-opus'')), (str ''messages'', example_messages)]"
  let ?u = "[(str ''model'', JStr (str ''gpt-4'')), (str ''messages'', example_messages)]"
  have b1: "get_json opus_request = Inr (JObj ?d)" by (simp add: opus_request_def)
  have b2: "get_json unknown_request = Inr (JObj ?u)" by (simp add: unknown_request_def)
  have m1: "request_messages ?d = example_messages"
    by (simp add: request_messages_def dict_get_def str_def)
  have m2: "request_messages ?u = example_messages"
    by (simp add: request_messages_def dict_get_def str_def)
  have t1: "truthy (request_messages ?d)" by (simp add: m1 example_messages_truthy)
  have t2: "truthy (request_messages ?u)" by (simp add: m2 example_messages_truthy)
  have r1: "request_model ?d = JStr (str ''claude-code-opus'')"
    by (simp add: request_model_def dict_get_def)
  have r2: "request_model ?u = JStr (str ''gpt-4'')"
    by (simp add: request_model_def dict_get_def)
  have f: "FORCE_AGENT example_gateway = []" by (simp add: example_gateway_def)
  have k: "map_of MODEL_MAP (str ''gpt-4'') = None" by (simp add: MODEL_MAP_def str_def)
  have run: "invoke_and_respond example_gateway ?d (str ''claude'') (Some (str ''opus''))
      = Inr (JsonResponse 200
          (create_response example_gateway (str ''ok'') (JStr (str ''claude-code-opus'')) None 0 0))"
    by (simp add: invoke_and_respond_def m1 r1 example_prompt request_response_format_def
          request_stream_def request_context_def dict_get_def respond_def call_agent_def)
       (simp add: example_gateway_def py_strip_def isspace_def str_def)
  from model_routing [OF example_auth b1 t1] r1 f run
  have o: "chat_completions example_gateway opus_request =
        JsonResponse 200
          (create_response example_gateway (str ''ok'') (JStr (str ''claude-code-opus'')) None 0 0)"
    by simp
  from model_routing [OF example_auth b2 t2] r2 k
  have u: "status (chat_completions example_gateway unknown_request) = 400
     \<and> response_at (chat_completions example_gateway unknown_request)
        [Key (str ''error''), Key (str ''type'')] = Some (JStr (str ''invalid_request_error''))"
    by blast
  show ?thesis
    using example_auth b1 b2 t1 r1 r2 f k o u by blast
qed

lemma strip_boom: "py_strip (str ''boom'') = str ''boom''"
  by (simp add: py_strip_def isspace_def str_def)

lemma call_agent_boom:
  assumes "subprocess_run g (agent_command g prompt agent model context json_schema) 300
             (if truthy context then context else JStr (SCRIPT_DIR g))
           = Completed returncode out (str ''boom'')"
    and "returncode \<noteq> 0"
  shows "call_agent g prompt agent model context json_schema = str ''Error: boom''"
  using assms by (simp add: call_agent_def strip_boom) (simp add: str_def)

lemma status_respond: "status (respond g stream model_name content) = 200"
  by (simp add: respond_def)

lemma respond_content:
  "response_at (respond g stream model_name content)
     [Key (str ''choices''), Index 0, Key (str ''message''), Key (str ''content'')]
   = (if truthy stream then None else Some (JStr content))"
  by (simp add: respond_def create_response_content)

text \<open>
  C8. When the invocation of the agent for a request ends with a non-zero return code
  and the stderr \<open>boom\<close>, the handler answers with status 200, never with an error
  status: a request that does not stream gets the completion object built for the
  content \<open>Error: boom\<close>, whose assistant content is exactly that text, and a streaming
  request gets the stream of that text.
\<close>

theorem agent_failure_is_200:
  assumes "check_auth g req" and "get_json req = Inr (JObj d)" and "truthy (request_messages d)"
    and "MODEL_MAP_get (request_model d) = Inr (Some model_config)"
    and "agent = (if FORCE_AGENT g \<noteq> [] then FORCE_AGENT g else fst model_config)"
    and "model = (if FORCE_AGENT g \<noteq> [] then None else snd model_config)"
    and "messages_to_prompt g (request_messages d) = Inr prompt"
    and "extract_json_schema g (request_response_format d) = Inr json_schema"
    and "subprocess_run g (agent_command g prompt agent model (request_context d) json_schema) 300
           (if truthy (request_context d) then request_context d else JStr (SCRIPT_DIR g))
         = Completed returncode out (str ''boom'')"
    and "returncode \<noteq> 0"
  shows "status (chat_completions g req) = 200
    \<and> chat_completions g req =
        (if truthy (request_stream d)
         then EventStream (stream_response g (str ''Error: boom'') (request_model d))
         else JsonResponse 200
                (create_response g (str ''Error: boom'') (request_model d) None 0 0))
    \<and> response_at (chat_completions g req)
        [Key (str ''choices''), Index 0, Key (str ''message''), Key (str ''content'')]
       = (if truthy (request_stream d) then None else Some (JStr (str ''Error: boom'')))"
proof -
  have c: "call_agent g prompt agent model (request_context d) json_schema = str ''Error: boom''"
    using assms(9,10) by (rule call_agent_boom)
  have "invoke_and_respond g d agent model
          = Inr (respond g (request_stream d) (request_model d) (str ''Error: boom''))"
    by (simp add: invoke_and_respond_def assms(7,8) c)
  with chat_completions_routed [OF assms(1-4)] assms(5,6)
  have r: "chat_completions g req = respond g (request_stream d) (request_model d) (str ''Error: boom'')"
    by simp
  show ?thesis
    unfolding r by (simp add: status_respond respond_content) (simp add: respond_def)
qed

lemma example_prompt_failing:
  "messages_to_prompt failing_gateway example_messages = Inr (str ''one two three four'')"
  by (simp add: messages_to_prompt_def example_messages_def dict_get_def str_def)

theorem agent_failure_is_200_witness:
  "check_auth failing_gateway example_request
   \<and> get_json example_request = Inr (JObj [(str ''messages'', example_messages)])
   \<and> truthy (request_messages [(str ''messages'', example_messages)])
   \<and> MODEL_MAP_get (request_model [(str ''messages'', example_messages)])
       = Inr (Some (str ''claude'', None))
   \<and> messages_to_prompt failing_gateway (request_messages [(str ''messages'', example_messages)])
       = Inr (str ''one two three four'')
   \<and> extract_json_schema failing_gateway
        (request_response_format [(str ''messages'', example_messages)]) = Inr None
   \<and> subprocess_run failing_gateway
        (agent_command failing_gateway (str ''one two three four'') (str ''claude'') None
           (request_context [(str ''messages'', example_messages)]) None)
        300 (JStr (SCRIPT_DIR failing_gateway))
       = Completed 1 [] (str ''boom'')
   \<and> status (chat_completions failing_gateway example_request) = 200
   \<and> response_at (chat_completions failing_gateway example_request)
        [Key (str ''choices''), Index 0, Key (str ''message''), Key (str ''content'')]
       = Some (JStr (str ''Error: boom''))"
proof -
  let ?d = "[(str ''messages'', example_messages)]"
  have a: "check_auth failing_gateway example_request"
    by (simp add: check_auth_def failing_gateway_def example_gateway_def)
  have b: "get_json example_request = Inr (JObj ?d)" by (simp add: example_request_def)
  have m: "request_messages ?d = example_messages"
    by (simp add: request_messages_def dict_get_def)
  have t: "truthy (request_messages ?d)" by (simp add: m example_messages_truthy)
  have rm: "request_model ?d = JStr (str ''claude-code'')"
    by (simp add: request_model_def dict_get_def str_def)
  have r: "MODEL_MAP_get (request_model ?d) = Inr (Some (str ''claude'', None))"
    using rm by (simp add: MODEL_MAP_default)
  have f: "FORCE_AGENT failing_gateway = []" by (simp add: failing_gateway_def example_gateway_def)
  have ag: "str ''claude'' = (if FORCE_AGENT failing_gateway \<noteq> [] then FORCE_AGENT failing_gateway
                              else fst (str ''claude'', None :: pystr option))"
    by (simp add: f)
  have mo: "None = (if FORCE_AGENT failing_gateway \<noteq> [] then None
                    else snd (str ''claude'', None :: pystr option))"
    by (simp add: f)
  have p: "messages_to_prompt failing_gateway (request_messages ?d) = Inr (str ''one two three four'')"
    unfolding m by (rule example_prompt_failing)
  have j: "extract_json_schema failing_gateway (request_response_format ?d) = Inr None"
    by (simp add: request_response_format_def dict_get_def str_def)
  have c: "truthy (request_context ?d) = False"
    by (simp add: request_context_def dict_get_def str_def)
  have s: "truthy (request_stream ?d) = False"
    by (simp add: request_stream_def dict_get_def str_def)
  have run: "subprocess_run failing_gateway
        (agent_command failing_gateway (str ''one two three four'') (str ''claude'') None
           (request_context ?d) None)
        300 (if truthy (request_context ?d) then request_context ?d
             else JStr (SCRIPT_DIR failing_gateway))
       = Completed 1 [] (str ''boom'')"
    by (simp add: failing_gateway_def)
  have nz: "(1::int) \<noteq> 0" by simp
  note th = agent_failure_is_200 [OF a b t r ag mo p j run nz, unfolded s if_False]
  from th have st: "status (chat_completions failing_gateway example_request) = 200"
    by blast
  from th have ct: "response_at (chat_completions failing_gateway example_request)
        [Key (str ''choices''), Index 0, Key (str ''message''), Key (str ''content'')]
       = Some (JStr (str ''Error: boom''))"
    by blast
  show ?thesis
    using a b t r p j run [unfolded c if_False] st ct by blast
qed

lemma invoke_and_respond_status:
  "invoke_and_respond g d agent model = Inr r \<Longrightarrow> status r = 200"
  by (auto simp: invoke_and_respond_def status_respond split: sum.splits)

lemma status_internal_error: "status (internal_error g e) = 500"
  by (simp add: internal_error_def)

lemma parameter_names_distinct:
  "str ''messages'' \<noteq> str ''model''" "str ''stream'' \<noteq> str ''model''"
  "str ''response_format'' \<noteq> str ''model''" "str ''context'' \<noteq> str ''model''"
  by (simp_all add: str_def)

lemma explicit_default_model:
  assumes "map_of d (str ''model'') = None"
  shows "request_model ((str ''model'', JStr (str ''claude-code'')) # d) = request_model d"
    and "request_messages ((str ''model'', JStr (str ''claude-code'')) # d) = request_messages d"
    and "request_stream ((str ''model'', JStr (str ''claude-code'')) # d) = request_stream d"
    and "request_response_format ((str ''model'', JStr (str ''claude-code'')) # d)
           = request_response_format d"
    and "request_context ((str ''model'', JStr (str ''claude-code'')) # d) = request_context d"
  using assms
  by (simp_all add: request_model_def request_messages_def request_stream_def
        request_response_format_def request_context_def dict_get_def parameter_names_distinct)

text \<open>
  C9. An authenticated request whose body has non-empty messages and no \<open>model\<close> field
  is never answered with status 400. It is answered exactly as the same request with the
  model \<open>claude-code\<close> written out: the routing table gives agent \<open>claude\<close> without a
  sub-model, and the handler answers with what the invocation of that agent (of the
  forced agent, when one is configured, as for every model) without sub-model gives.
\<close>

theorem omitted_model_defaults:
  assumes "check_auth g req" and "get_json req = Inr (JObj d)"
    and "map_of d (str ''model'') = None" and "truthy (request_messages d)"
  shows "status (chat_completions g req) \<noteq> 400
    \<and> chat_completions g req =
        chat_completions g
          (req\<lparr>get_json := Inr (JObj ((str ''model'', JStr (str ''claude-code'')) # d))\<rparr>)
    \<and> MODEL_MAP_get (request_model d) = Inr (Some (str ''claude'', None))
    \<and> chat_completions g req =
        (case invoke_and_respond g d
                (if FORCE_AGENT g \<noteq> [] then FORCE_AGENT g else str ''claude'') None of
           Inr r \<Rightarrow> r
         | Inl e \<Rightarrow> internal_error g e)"
proof -
  let ?d' = "(str ''model'', JStr (str ''claude-code'')) # d"
  let ?req' = "req\<lparr>get_json := Inr (JObj ?d')\<rparr>"
  let ?agent = "if FORCE_AGENT g \<noteq> [] then FORCE_AGENT g else str ''claude''"
  have rm: "request_model d = JStr (str ''claude-code'')"
    using assms(3) by (simp add: request_model_def dict_get_def)
  then have route: "MODEL_MAP_get (request_model d) = Inr (Some (str ''claude'', None))"
    by (simp add: MODEL_MAP_default)
  from chat_completions_routed [OF assms(1,2,4) route]
  have eq: "chat_completions g req =
        (case invoke_and_respond g d ?agent None of Inr r \<Rightarrow> r | Inl e \<Rightarrow> internal_error g e)"
    by simp
  have st: "status (chat_completions g req) \<noteq> 400"
    unfolding eq
    by (cases "invoke_and_respond g d ?agent None")
       (simp_all add: status_internal_error invoke_and_respond_status)
  note same = explicit_default_model [OF assms(3)]
  have auth': "check_auth g ?req'" using assms(1) by (simp add: check_auth_def)
  have body': "get_json ?req' = Inr (JObj ?d')" by simp
  have msgs': "truthy (request_messages ?d')" using assms(4) by (simp only: same)
  have route': "MODEL_MAP_get (request_model ?d') = Inr (Some (str ''claude'', None))"
    using route by (simp only: same)
  have inv: "invoke_and_respond g ?d' ?agent None = invoke_and_respond g d ?agent None"
    unfolding invoke_and_respond_def by (simp only: same)
  from chat_completions_routed [OF auth' body' msgs' route']
  have "chat_completions g ?req' =
        (case invoke_and_respond g ?d' ?agent None of Inr r \<Rightarrow> r | Inl e \<Rightarrow> internal_error g e)"
    by simp
  then have "chat_completions g ?req' = chat_completions g req"
    by (simp only: inv eq)
  with st route eq show ?thesis by simp
qed

theorem omitted_model_defaults_witness:
  "check_auth example_gateway example_request
   \<and> get_json example_request = Inr (JObj [(str ''messages'', example_messages)])
   \<and> map_of [(str ''messages'', example_messages)] (str ''model'') = None
   \<and> truthy (request_messages [(str ''messages'', example_messages)])
   \<and> status (chat_completions example_gateway example_request) \<noteq> 400
   \<and> chat_completions example_gateway example_request =
        chat_completions example_gateway
          (example_request\<lparr>get_json :=
             Inr (JObj [(str ''model'', JStr (str ''claude-code'')),
                        (str ''messages'', example_messages)])\<rparr>)"
proof -
  let ?d = "[(str ''messages'', example_messages)]"
  have b: "get_json example_request = Inr (JObj ?d)" by (simp add: example_request_def)
  have n: "map_of ?d (str ''model'') = None" by (simp add: str_def)
  have m: "request_messages ?d = example_messages"
    by (simp add: request_messages_def dict_get_def)
  have t: "truthy (request_messages ?d)" by (simp add: m example_messages_truthy)
  from omitted_model_defaults [OF example_auth b n t] example_auth b n t
  show ?thesis by blast
qed


section \<open>The client: turn collection\<close>

























text \<open>A line on which \<open>json.loads\<close> raises \<open>ValueError\<close> ends the generator there: the
  result envelope on the next line is not reached.\<close>

lemma loads_fault_aborts:
  "read_responses example_loads faulty_events = ([example_assistant], Raised ValueError, [])"
  by (simp add: read_responses_def scan_buffer.simps faulty_events_def example_loads_def
        example_assistant_def dict_get_def py_strip_def isspace_def str_def)


section \<open>The client: the call and the clear-drain\<close>

text \<open>
  C6. When the inbound FIFO exists, the primary turn returns and its envelopes aggregate
  to a text, and the read after the clear command ends with \<open>TimeoutError\<close>, the call
  with \<open>clear\<close> requested still returns that text, the same value the call without
  \<open>clear\<close> returns.
\<close>

theorem clear_drain_timeout_swallowed:
  assumes "fifo_in_exists w"
    and "read_responses loads (incoming w) = (responses, Returned, rest)"
    and "extract_text responses = Inr result"
    and "read_responses loads rest = (drained, Raised TimeoutError, rest')"
  shows "fst (call loads w prompt True raw_prompt) = Some (Inr result)
    \<and> fst (call loads w prompt False raw_prompt) = Some (Inr result)"
  using assms
  by (simp add: call_def send_message_def send_clear_def Let_def)

lemma example_read:
  "read_responses example_loads (incoming example_world)
     = ([example_assistant, JObj example_result], Returned, [NotReady])"
  by (simp add: read_responses_def scan_buffer.simps example_world_def example_loads_def str_def
        py_strip_def isspace_def example_result_def example_assistant_def dict_get_def)

theorem clear_drain_timeout_swallowed_witness:
  "fifo_in_exists example_world
   \<and> read_responses example_loads (incoming example_world)
       = ([example_assistant, JObj example_result], Returned, [NotReady])
   \<and> extract_text [example_assistant, JObj example_result] = Inr (JStr (str ''final answer''))
   \<and> read_responses example_loads [NotReady] = ([], Raised TimeoutError, [])
   \<and> fst (call example_loads example_world (str ''hi'') True False)
       = Some (Inr (JStr (str ''final answer'')))"
proof -
  have a: "fifo_in_exists example_world" by (simp add: example_world_def)
  have c: "extract_text [example_assistant, JObj example_result] = Inr (JStr (str ''final answer''))"
    by (simp add: extract_text_def example_assistant_def example_result_def dict_get_def str_def)
  have d: "read_responses example_loads [NotReady] = ([], Raised TimeoutError, [])"
    by (simp add: read_responses_def)
  from clear_drain_timeout_swallowed [OF a example_read c d] a example_read c d
  show ?thesis by blast
qed

end
